theory Spec2Isabelle
  imports Main "HOL-Library.Multiset"
begin

section \<open>The host platform\<close>

text \<open>
  The components of \<^verbatim>\<open>game-components.js\<close> wrap two platform facilities: the document
  (\<^verbatim>\<open>document.getElementById\<close> and the \<^verbatim>\<open>innerText\<close> of an element) and the timer
  facility (\<^verbatim>\<open>setInterval\<close>, \<^verbatim>\<open>clearInterval\<close>). Both are state of the host, passed
  explicitly. An element is a reference into the document; two components bound to the
  same identifier share it.
\<close>

type_synonym element = nat

text \<open>A JavaScript \<^verbatim>\<open>Error\<close> object: its \<^verbatim>\<open>name\<close> and its \<^verbatim>\<open>message\<close>.\<close>

datatype error = Error (name: string) (message: string)

text \<open>
  The values the public field \<^verbatim>\<open>countdownTimerEndCallback\<close> can hold: \<^verbatim>\<open>null\<close>,
  \<^verbatim>\<open>undefined\<close>, a function (named by a number; its body is code of the application,
  not of this repository: the model records that it is called and takes the body to leave
  the timer and its intervals alone), or any other value, which is not callable.
\<close>

datatype jsvalue = Null | Undefined | Function nat | NotCallable

text \<open>What a component does to the host, in the order in which it does it.\<close>

datatype event =
    SetInnerText element string
  | SetInterval nat
  | ClearInterval "nat option"
  | Call nat
  | Uncaught string

text \<open>
  \<open>active\<close> holds the handles of the intervals that are scheduled and not yet cancelled,
  in the order of their creation. The only intervals of the model are those that the
  timer under study creates, so each of them runs the tick closure of \<^verbatim>\<open>startCountdown\<close>.
\<close>

record host =
  getElementById :: "string \<rightharpoonup> element"
  innerText :: "element \<Rightarrow> string"
  nextHandle :: nat
  active :: "nat list"
  trace :: "event list"

text \<open>
  \<^verbatim>\<open>setInterval\<close> returns a handle that no earlier call returned (the platform counts
  upwards from 1) and schedules the interval.
\<close>

definition setInterval :: "host \<Rightarrow> nat \<times> host" where
  "setInterval d =
     (nextHandle d,
      d\<lparr>nextHandle := Suc (nextHandle d),
        active := active d @ [nextHandle d],
        trace := trace d @ [SetInterval (nextHandle d)]\<rparr>)"

text \<open>
  \<^verbatim>\<open>clearInterval\<close> cancels the interval with the given handle; a handle that names no
  scheduled interval, and \<^verbatim>\<open>undefined\<close> (\<open>None\<close>), are accepted and cancel nothing.
\<close>

definition clearInterval :: "nat option \<Rightarrow> host \<Rightarrow> host" where
  "clearInterval v d =
     d\<lparr>active := (case v of None \<Rightarrow> active d | Some h \<Rightarrow> removeAll h (active d)),
       trace := trace d @ [ClearInterval v]\<rparr>"

text \<open>
  A template literal converts a number with \<^verbatim>\<open>Number.prototype.toString\<close>. The scores and
  times of the components are integer-valued numbers, written in decimal with a leading
  minus sign (the notation of the platform for integers below \<open>10 ^ 21\<close> in absolute value).
  The times of a Timer are taken within \<open>2 ^ 53\<close> in absolute value, where subtracting 1
  is exact.
\<close>

fun nat_digits :: "nat \<Rightarrow> string" where
  "nat_digits n =
     (if n < 10 then [''0123456789'' ! n]
      else nat_digits (n div 10) @ [''0123456789'' ! (n mod 10)])"

declare nat_digits.simps [simp del]

definition Number_toString :: "int \<Rightarrow> string" where
  "Number_toString n =
     (if n < 0 then CHR ''-'' # nat_digits (nat (- n)) else nat_digits (nat n))"

text \<open>
  The numbers of JavaScript are IEEE 754 doubles, with 53 significant bits. Every integer
  up to \<open>2 ^ 53\<close> in absolute value is a double; a larger integer is a double only when it
  is a multiple of the power of two that leaves 53 bits. The sum of two integer-valued
  doubles is their exact sum rounded to the nearest double, and to the one with the even
  significand when two are equally near. \<open>bit_length n\<close> is the number of binary digits of
  \<open>n\<close>, \<open>roundToDouble\<close> rounds a natural number, and \<open>Number_add\<close> is the operator \<^verbatim>\<open>+\<close>
  on integer-valued numbers. (A sum that rounds to \<open>2 ^ 1024\<close> or more in absolute value
  is \<^verbatim>\<open>Infinity\<close> on the platform, which is no integer; the model covers the finite sums.)
\<close>

fun bit_length :: "nat \<Rightarrow> nat" where
  "bit_length n = (if n = 0 then 0 else Suc (bit_length (n div 2)))"

declare bit_length.simps [simp del]

definition roundToDouble :: "nat \<Rightarrow> nat" where
  "roundToDouble n =
     (if n \<le> 2 ^ 53 then n
      else let sh = bit_length n - 53; q = n div 2 ^ sh; r = n mod 2 ^ sh; half = 2 ^ (sh - 1)
           in (if half < r \<or> (r = half \<and> odd q) then q + 1 else q) * 2 ^ sh)"

definition Number_add :: "int \<Rightarrow> int \<Rightarrow> int" where
  "Number_add a b =
     (let x = a + b
      in if x < 0 then - int (roundToDouble (nat (- x))) else int (roundToDouble (nat x)))"

section \<open>GameComponent and TextComponent\<close>

text \<open>
  The private variable \<^verbatim>\<open>element\<close> of the constructor's scope, read by \<^verbatim>\<open>getElement\<close>.
  The derived objects extend this record, as their prototypes extend the base prototype.
\<close>

record game_component =
  element :: element

text \<open>
  The error that the constructor throws: an \<^verbatim>\<open>Error\<close> whose message quotes the identifier
  between double quotes (\<open>CHR 0x22\<close>) and whose name is set to \<^verbatim>\<open>HtmlElementNotFound\<close>.
\<close>

definition HtmlElementNotFound :: "string \<Rightarrow> error" where
  "HtmlElementNotFound i =
     Error ''HtmlElementNotFound''
       (''No element exists with id='' @ [CHR 0x22] @ i @ [CHR 0x22] @ ''.'')"

definition GameComponent :: "string \<Rightarrow> host \<Rightarrow> error + game_component" where
  "GameComponent idValue d =
     (case getElementById d idValue of
        None \<Rightarrow> Inl (HtmlElementNotFound idValue)
      | Some e \<Rightarrow> Inr \<lparr>element = e\<rparr>)"

definition getElement :: "'a game_component_scheme \<Rightarrow> element" where
  "getElement this = element this"

definition TextComponent :: "string \<Rightarrow> host \<Rightarrow> error + game_component" where
  "TextComponent idValue d = GameComponent idValue d"

definition setText :: "'a game_component_scheme \<Rightarrow> string \<Rightarrow> host \<Rightarrow> host" where
  "setText this v d =
     d\<lparr>innerText := (innerText d)(getElement this := v),
       trace := trace d @ [SetInnerText (getElement this) v]\<rparr>"

section \<open>Scoreboard\<close>

record scoreboard = game_component +
  initialValue :: int
  score :: int

definition Scoreboard_updateDisplay :: "scoreboard \<Rightarrow> host \<Rightarrow> host" where
  "Scoreboard_updateDisplay this d = setText this (''Score: '' @ Number_toString (score this)) d"

text \<open>
  The constructor returns the new object or the error thrown, and the host as the call
  leaves it. The second argument is \<open>None\<close> when the caller omits it: the default
  parameter value \<open>0\<close> applies.
\<close>

definition Scoreboard :: "string \<Rightarrow> int option \<Rightarrow> host \<Rightarrow> (error + scoreboard) \<times> host" where
  "Scoreboard idValue initialValueArg d =
     (let initialValue = (case initialValueArg of None \<Rightarrow> 0 | Some v \<Rightarrow> v) in
      case TextComponent idValue d of
        Inl err \<Rightarrow> (Inl err, d)
      | Inr base \<Rightarrow>
          (let this = \<lparr>element = element base, initialValue = initialValue, score = initialValue\<rparr>
           in (Inr this, Scoreboard_updateDisplay this d)))"

definition Scoreboard_update :: "int \<Rightarrow> scoreboard \<times> host \<Rightarrow> scoreboard \<times> host" where
  "Scoreboard_update v = (\<lambda>(this, d).
     let this' = this\<lparr>score := Number_add (score this) v\<rparr>
     in (this', Scoreboard_updateDisplay this' d))"

definition Scoreboard_reset :: "scoreboard \<times> host \<Rightarrow> scoreboard \<times> host" where
  "Scoreboard_reset = (\<lambda>(this, d).
     let this' = this\<lparr>score := initialValue this\<rparr>
     in (this', Scoreboard_updateDisplay this' d))"

text \<open>A list of calls of \<^verbatim>\<open>update\<close>, one per delta, from left to right.\<close>

definition updates :: "int list \<Rightarrow> scoreboard \<times> host \<Rightarrow> scoreboard \<times> host" where
  "updates ds w = foldl (\<lambda>w v. Scoreboard_update v w) w ds"

text \<open>
  The running total of the deltas \<open>ds\<close>, added from left to right to the score \<open>s\<close>, stays
  within \<open>2 ^ 53\<close> in absolute value, the range in which every integer is a double.
\<close>

fun within_safe :: "int \<Rightarrow> int list \<Rightarrow> bool" where
  "within_safe s [] = True"
| "within_safe s (v # ds) = (\<bar>s + v\<bar> \<le> 2 ^ 53 \<and> within_safe (s + v) ds)"

section \<open>Timer\<close>

record timer = game_component +
  initialTime :: int
  timeRemaining :: int
  intervalId :: "nat option"
  countdownTimerEndCallback :: jsvalue

definition Timer_updateDisplay :: "timer \<Rightarrow> host \<Rightarrow> host" where
  "Timer_updateDisplay this d = setText this (''Time: '' @ Number_toString (timeRemaining this)) d"

definition Timer :: "string \<Rightarrow> int \<Rightarrow> host \<Rightarrow> (error + timer) \<times> host" where
  "Timer idValue initialTimeValue d =
     (case TextComponent idValue d of
        Inl err \<Rightarrow> (Inl err, d)
      | Inr base \<Rightarrow>
          (let this = \<lparr>element = element base, initialTime = initialTimeValue,
                       timeRemaining = initialTimeValue, intervalId = None,
                       countdownTimerEndCallback = Null\<rparr>
           in (Inr this, Timer_updateDisplay this d)))"

text \<open>
  The guard \<^verbatim>\<open>if (intervalId)\<close> of \<^verbatim>\<open>reset\<close>: \<^verbatim>\<open>undefined\<close> and the number 0 are falsy.
\<close>

definition truthy :: "nat option \<Rightarrow> bool" where
  "truthy v = (case v of None \<Rightarrow> False | Some h \<Rightarrow> h \<noteq> 0)"

definition Timer_reset :: "timer \<times> host \<Rightarrow> timer \<times> host" where
  "Timer_reset = (\<lambda>(this, d).
     let d1 = (if truthy (intervalId this) then clearInterval (intervalId this) d else d);
         this' = this\<lparr>timeRemaining := initialTime this\<rparr>
     in (this', Timer_updateDisplay this' d1))"

definition startCountdown :: "timer \<times> host \<Rightarrow> timer \<times> host" where
  "startCountdown = (\<lambda>(this, d).
     let (h, d1) = setInterval d
     in (this\<lparr>intervalId := Some h\<rparr>, d1))"

text \<open>
  The body of the arrow function that \<^verbatim>\<open>startCountdown\<close> passes to \<^verbatim>\<open>setInterval\<close>. It
  reads \<^verbatim>\<open>intervalId\<close> and the callback field when it runs. Calling a value that is not
  a function throws a \<^verbatim>\<open>TypeError\<close> out of the closure, which the host reports; what the
  closure did before stays done.
\<close>

definition tick :: "timer \<times> host \<Rightarrow> timer \<times> host" where
  "tick = (\<lambda>(this, d).
     let this' = this\<lparr>timeRemaining := timeRemaining this - 1\<rparr>;
         d1 = Timer_updateDisplay this' d
     in if timeRemaining this' = 0 then
          (let d2 = clearInterval (intervalId this') d1
           in case countdownTimerEndCallback this' of
                Null \<Rightarrow> (this', d2)
              | Undefined \<Rightarrow> (this', d2)
              | Function f \<Rightarrow> (this', d2\<lparr>trace := trace d2 @ [Call f]\<rparr>)
              | NotCallable \<Rightarrow> (this', d2\<lparr>trace := trace d2 @ [Uncaught ''TypeError'']\<rparr>))
        else (this', d1))"

text \<open>The host runs the closure of an interval only while the interval is scheduled.\<close>

definition fire :: "nat \<Rightarrow> timer \<times> host \<Rightarrow> timer \<times> host" where
  "fire h w = (if h \<in> set (active (snd w)) then tick w else w)"

text \<open>What the application and the host can do with a timer, and runs of such steps.\<close>

datatype op = StartCountdown | Reset | Fire nat | SetCallback jsvalue

fun step :: "timer \<times> host \<Rightarrow> op \<Rightarrow> timer \<times> host" where
  "step w StartCountdown = startCountdown w"
| "step w Reset = Timer_reset w"
| "step w (Fire h) = fire h w"
| "step w (SetCallback v) = (fst w\<lparr>countdownTimerEndCallback := v\<rparr>, snd w)"

definition run :: "op list \<Rightarrow> timer \<times> host \<Rightarrow> timer \<times> host" where
  "run ops w = foldl step w ops"

text \<open>
  The two states of a timer. \<open>Idle\<close>: no interval is scheduled. \<open>Running h\<close>: exactly the
  interval \<open>h\<close> is scheduled and \<^verbatim>\<open>intervalId\<close> holds its handle.
\<close>

definition Idle :: "timer \<times> host \<Rightarrow> bool" where
  "Idle w \<longleftrightarrow> active (snd w) = [] \<and> 0 < nextHandle (snd w)"

definition Running :: "nat \<Rightarrow> timer \<times> host \<Rightarrow> bool" where
  "Running h w \<longleftrightarrow>
     active (snd w) = [h] \<and> intervalId (fst w) = Some h \<and> 0 < h \<and> h < nextHandle (snd w)"

text \<open>The calls of completion callbacks that a trace records.\<close>

fun calls :: "event list \<Rightarrow> nat list" where
  "calls [] = []"
| "calls (Call f # es) = f # calls es"
| "calls (_ # es) = calls es"

text \<open>
  A run in which \<^verbatim>\<open>startCountdown\<close> is only called while no interval is scheduled.
\<close>

fun disciplined :: "op list \<Rightarrow> timer \<times> host \<Rightarrow> bool" where
  "disciplined [] w = True"
| "disciplined (x # xs) w =
     ((x = StartCountdown \<longrightarrow> active (snd w) = []) \<and> disciplined xs (step w x))"

text \<open>
  A concrete page for the examples: two elements, bound to the identifiers
  \<^verbatim>\<open>scoreboard\<close> and \<^verbatim>\<open>timer\<close>, with no text and no interval scheduled; the timer of
  duration 3 on it and the page after that timer's construction; and that timer started,
  with the function 7 as its callback.
\<close>

definition page :: host where
  "page = \<lparr>getElementById = [''scoreboard'' \<mapsto> 0, ''timer'' \<mapsto> 1],
           innerText = (\<lambda>_. []), nextHandle = 1, active = [], trace = []\<rparr>"

text \<open>The Scoreboard with the default initial score on that page, and the page after its construction.\<close>

definition scoreboard0 :: scoreboard where
  "scoreboard0 = \<lparr>element = 0, initialValue = 0, score = 0\<rparr>"

definition page_score0 :: host where
  "page_score0 = page\<lparr>innerText := (innerText page)(0 := ''Score: 0''),
                      trace := [SetInnerText 0 ''Score: 0'']\<rparr>"

definition timer3 :: timer where
  "timer3 = \<lparr>element = 1, initialTime = 3, timeRemaining = 3, intervalId = None,
             countdownTimerEndCallback = Null\<rparr>"

definition page3 :: host where
  "page3 = page\<lparr>innerText := (innerText page)(1 := ''Time: 3''),
                trace := [SetInnerText 1 ''Time: 3'']\<rparr>"

definition started3 :: "timer \<times> host" where
  "started3 = startCountdown (step (timer3, page3) (SetCallback (Function 7)))"

text \<open>That timer after one tick of its interval, which has the handle 1.\<close>

definition ticked3 :: "timer \<times> host" where
  "ticked3 = fire 1 started3"




section \<open>Basic facts\<close>

lemma Number_toString_small:
  "Number_toString 0 = ''0''" "Number_toString 1 = ''1''" "Number_toString 2 = ''2''"
  "Number_toString 3 = ''3''" "Number_toString (- 1) = ''-1''"
  by (simp_all add: Number_toString_def nat_digits.simps)

lemma calls_append: "calls (xs @ ys) = calls xs @ calls ys"
  by (induction xs rule: calls.induct) simp_all

lemma calls_renders: "calls (map (\<lambda>k. SetInnerText e (f k)) ks) = []"
  by (induction ks) simp_all

lemma run_append: "run (xs @ ys) w = run ys (run xs w)"
  by (simp add: run_def)

lemma run_Nil: "run [] w = w"
  by (simp add: run_def)

lemma run_Cons: "run (x # xs) w = run xs (step w x)"
  by (simp add: run_def)

lemma Scoreboard_updateDisplay_eq:
  "Scoreboard_updateDisplay s d =
     d\<lparr>innerText := (innerText d)(element s := ''Score: '' @ Number_toString (score s)),
       trace := trace d @ [SetInnerText (element s) (''Score: '' @ Number_toString (score s))]\<rparr>"
  by (simp add: Scoreboard_updateDisplay_def setText_def getElement_def)

lemma Timer_updateDisplay_eq:
  "Timer_updateDisplay t d =
     d\<lparr>innerText := (innerText d)(element t := ''Time: '' @ Number_toString (timeRemaining t)),
       trace := trace d @ [SetInnerText (element t) (''Time: '' @ Number_toString (timeRemaining t))]\<rparr>"
  by (simp add: Timer_updateDisplay_def setText_def getElement_def)

lemma Scoreboard_Some:
  assumes "getElementById d i = Some e"
  shows "Scoreboard i a d =
    (Inr \<lparr>element = e, initialValue = (case a of None \<Rightarrow> 0 | Some v \<Rightarrow> v),
          score = (case a of None \<Rightarrow> 0 | Some v \<Rightarrow> v)\<rparr>,
     d\<lparr>innerText := (innerText d)
          (e := ''Score: '' @ Number_toString (case a of None \<Rightarrow> 0 | Some v \<Rightarrow> v)),
       trace := trace d @
          [SetInnerText e (''Score: '' @ Number_toString (case a of None \<Rightarrow> 0 | Some v \<Rightarrow> v))]\<rparr>)"
  using assms
  by (simp add: Scoreboard_def TextComponent_def GameComponent_def Scoreboard_updateDisplay_eq
      Let_def)

lemma Timer_Some:
  assumes "getElementById d i = Some e"
  shows "Timer i n d =
    (Inr \<lparr>element = e, initialTime = n, timeRemaining = n, intervalId = None,
          countdownTimerEndCallback = Null\<rparr>,
     d\<lparr>innerText := (innerText d)(e := ''Time: '' @ Number_toString n),
       trace := trace d @ [SetInnerText e (''Time: '' @ Number_toString n)]\<rparr>)"
  using assms
  by (simp add: Timer_def TextComponent_def GameComponent_def Timer_updateDisplay_eq)

lemma startCountdown_eq:
  "startCountdown (t, d) =
    (t\<lparr>intervalId := Some (nextHandle d)\<rparr>,
     d\<lparr>nextHandle := Suc (nextHandle d), active := active d @ [nextHandle d],
       trace := trace d @ [SetInterval (nextHandle d)]\<rparr>)"
  by (simp add: startCountdown_def setInterval_def)

lemma tick_nonzero:
  assumes "timeRemaining t \<noteq> 1"
  shows "tick (t, d) =
    (t\<lparr>timeRemaining := timeRemaining t - 1\<rparr>,
     d\<lparr>innerText := (innerText d)
          (element t := ''Time: '' @ Number_toString (timeRemaining t - 1)),
       trace := trace d @
          [SetInnerText (element t) (''Time: '' @ Number_toString (timeRemaining t - 1))]\<rparr>)"
  using assms by (simp add: tick_def Let_def Timer_updateDisplay_eq)

lemma tick_zero:
  assumes "timeRemaining t = 1"
  shows "tick (t, d) =
    (t\<lparr>timeRemaining := 0\<rparr>,
     d\<lparr>innerText := (innerText d)(element t := ''Time: 0''),
       active := (case intervalId t of None \<Rightarrow> active d | Some h \<Rightarrow> removeAll h (active d)),
       trace := trace d @ [SetInnerText (element t) ''Time: 0'', ClearInterval (intervalId t)] @
          (case countdownTimerEndCallback t of
             Function f \<Rightarrow> [Call f] | NotCallable \<Rightarrow> [Uncaught ''TypeError''] | _ \<Rightarrow> [])\<rparr>)"
  using assms
  by (simp add: tick_def Let_def Timer_updateDisplay_eq clearInterval_def Number_toString_small
      split: jsvalue.splits option.splits)

lemma fire_inactive: "active (snd w) = [] \<Longrightarrow> fire h w = w"
  by (simp add: fire_def)

lemma run_fires_inactive: "active (snd w) = [] \<Longrightarrow> run (map Fire hs) w = w"
  by (induction hs) (simp_all add: run_Nil run_Cons fire_inactive)

lemma Running_fire: "Running h w \<Longrightarrow> fire h w = tick w"
  by (simp add: Running_def fire_def)

lemma updates_Cons: "updates (v # ds) w = updates ds (Scoreboard_update v w)"
  by (simp add: updates_def)

lemma Number_add_exact: "\<bar>a + b\<bar> \<le> 2 ^ 53 \<Longrightarrow> Number_add a b = a + b"
  by (auto simp add: Number_add_def roundToDouble_def Let_def)

lemma Scoreboard_update_eq:
  "Scoreboard_update v (s, d) =
     (s\<lparr>score := Number_add (score s) v\<rparr>,
      d\<lparr>innerText := (innerText d)
           (element s := ''Score: '' @ Number_toString (Number_add (score s) v)),
        trace := trace d @
          [SetInnerText (element s) (''Score: '' @ Number_toString (Number_add (score s) v))]\<rparr>)"
  by (simp add: Scoreboard_update_def Scoreboard_updateDisplay_eq)

lemma Scoreboard_reset_eq:
  "Scoreboard_reset (s, d) =
     (s\<lparr>score := initialValue s\<rparr>,
      d\<lparr>innerText := (innerText d)(element s := ''Score: '' @ Number_toString (initialValue s)),
        trace := trace d @
          [SetInnerText (element s) (''Score: '' @ Number_toString (initialValue s))]\<rparr>)"
  by (simp add: Scoreboard_reset_def Scoreboard_updateDisplay_eq)

lemma updates_fixed:
  "initialValue (fst (updates ds (s, d))) = initialValue s \<and>
   element (fst (updates ds (s, d))) = element s"
proof (induction ds arbitrary: s d)
  case Nil
  show ?case by (simp add: updates_def)
next
  case (Cons v ds)
  show ?case
    by (simp add: updates_Cons Scoreboard_update_eq Cons.IH)
qed

lemma updates_object:
  assumes "within_safe (score s) ds"
  shows "fst (updates ds (s, d)) = s\<lparr>score := score s + sum_list ds\<rparr>"
  using assms
proof (induction ds arbitrary: s d)
  case Nil
  show ?case by (simp add: updates_def)
next
  case (Cons v ds)
  have exact: "Number_add (score s) v = score s + v"
    using Cons.prems by (simp add: Number_add_exact)
  have "within_safe (score (s\<lparr>score := score s + v\<rparr>)) ds"
    using Cons.prems by simp
  then show ?case
    by (simp add: updates_Cons Scoreboard_update_eq exact Cons.IH add.assoc)
qed

lemma updates_display:
  assumes "innerText d (element s) = ''Score: '' @ Number_toString (score s)"
    and "within_safe (score s) ds"
  shows "innerText (snd (updates ds (s, d))) (element s) =
           ''Score: '' @ Number_toString (score s + sum_list ds)"
  using assms
proof (induction ds arbitrary: s d)
  case Nil
  then show ?case by (simp add: updates_def)
next
  case (Cons v ds)
  have exact: "Number_add (score s) v = score s + v"
    using Cons.prems(2) by (simp add: Number_add_exact)
  have "innerText (snd (updates ds (Scoreboard_update v (s, d)))) (element (s\<lparr>score := score s + v\<rparr>)) =
          ''Score: '' @ Number_toString (score (s\<lparr>score := score s + v\<rparr>) + sum_list ds)"
    unfolding Scoreboard_update_eq exact using Cons.prems(2) by (intro Cons.IH) simp_all
  then show ?case
    by (simp add: updates_Cons add.assoc)
qed

lemma page_scoreboard0: "Scoreboard ''scoreboard'' None page = (Inr scoreboard0, page_score0)"
  by (simp add: Scoreboard_def TextComponent_def GameComponent_def Let_def
      Scoreboard_updateDisplay_eq page_def scoreboard0_def page_score0_def
      Number_toString_small)

lemma ticks_before_zero:
  assumes "Running h (t, d)" "timeRemaining t \<le> 0 \<or> int n < timeRemaining t"
  shows "fst (run (replicate n (Fire h)) (t, d)) = t\<lparr>timeRemaining := timeRemaining t - int n\<rparr> \<and>
     active (snd (run (replicate n (Fire h)) (t, d))) = [h] \<and>
     nextHandle (snd (run (replicate n (Fire h)) (t, d))) = nextHandle d \<and>
     getElementById (snd (run (replicate n (Fire h)) (t, d))) = getElementById d \<and>
     trace (snd (run (replicate n (Fire h)) (t, d))) =
       trace d @ map (\<lambda>k. SetInnerText (element t)
                           (''Time: '' @ Number_toString (timeRemaining t - int k))) [1..<Suc n] \<and>
     (0 < n \<longrightarrow> innerText (snd (run (replicate n (Fire h)) (t, d))) (element t) =
         ''Time: '' @ Number_toString (timeRemaining t - int n))"
  using assms
proof (induction n)
  case 0
  then show ?case by (simp add: run_def Running_def)
next
  case (Suc n)
  obtain t' d' where w': "run (replicate n (Fire h)) (t, d) = (t', d')"
    by (cases "run (replicate n (Fire h)) (t, d)")
  have snoc: "replicate (Suc n) (Fire h) = replicate n (Fire h) @ [Fire h]"
    by (simp add: replicate_append_same)
  have before: "timeRemaining t \<le> 0 \<or> int n < timeRemaining t"
    using Suc.prems(2) by linarith
  have notone: "timeRemaining t - int n \<noteq> 1"
    using Suc.prems(2) by linarith
  note IH = Suc.IH [OF Suc.prems(1) before, unfolded w', simplified]
  have t': "t' = t\<lparr>timeRemaining := timeRemaining t - int n\<rparr>"
    using IH by simp
  have "run (replicate (Suc n) (Fire h)) (t, d) = tick (t', d')"
    unfolding snoc run_append w' using IH by (simp add: run_def fire_def)
  then show ?case
    using IH notone by (simp add: t' tick_nonzero algebra_simps)
qed

lemma ticks_before_zero_Running:
  assumes "Running h (t, d)" "timeRemaining t \<le> 0 \<or> int n < timeRemaining t"
  shows "Running h (run (replicate n (Fire h)) (t, d))"
  using ticks_before_zero [OF assms] assms(1) by (simp add: Running_def)

lemma countdown_completes:
  assumes "Running h (t, d)" "timeRemaining t = int n" "0 < n"
  shows "fst (run (replicate n (Fire h)) (t, d)) = t\<lparr>timeRemaining := 0\<rparr> \<and>
     active (snd (run (replicate n (Fire h)) (t, d))) = [] \<and>
     nextHandle (snd (run (replicate n (Fire h)) (t, d))) = nextHandle d \<and>
     trace (snd (run (replicate n (Fire h)) (t, d))) =
       trace d @ map (\<lambda>k. SetInnerText (element t)
                           (''Time: '' @ Number_toString (int n - int k))) [1..<Suc n] @
       [ClearInterval (Some h)] @
       (case countdownTimerEndCallback t of
          Function f \<Rightarrow> [Call f] | NotCallable \<Rightarrow> [Uncaught ''TypeError''] | _ \<Rightarrow> []) \<and>
     innerText (snd (run (replicate n (Fire h)) (t, d))) (element t) = ''Time: 0''"
proof -
  obtain m where n: "n = Suc m"
    using assms(3) by (cases n) simp_all
  obtain t' d' where w': "run (replicate m (Fire h)) (t, d) = (t', d')"
    by (cases "run (replicate m (Fire h)) (t, d)")
  have before: "timeRemaining t \<le> 0 \<or> int m < timeRemaining t"
    using assms(2) n by simp
  note B = ticks_before_zero [OF assms(1) before, unfolded w', simplified]
  have t': "t' = t\<lparr>timeRemaining := 1\<rparr>"
    using B assms(2) n by simp
  have h: "intervalId t = Some h"
    using assms(1) by (simp add: Running_def)
  have snoc: "replicate n (Fire h) = replicate m (Fire h) @ [Fire h]"
    by (simp add: n replicate_append_same)
  have "run (replicate n (Fire h)) (t, d) = tick (t', d')"
    unfolding snoc run_append w' using B by (simp add: run_def fire_def)
  then show ?thesis
    using B assms(2) by (simp add: t' tick_zero h n Number_toString_small)
qed

lemma fire_Running_nonzero:
  assumes "Running h (t, d)" "timeRemaining t \<noteq> 1"
  shows "fire h (t, d) =
    (t\<lparr>timeRemaining := timeRemaining t - 1\<rparr>,
     d\<lparr>innerText := (innerText d)
          (element t := ''Time: '' @ Number_toString (timeRemaining t - 1)),
       trace := trace d @
          [SetInnerText (element t) (''Time: '' @ Number_toString (timeRemaining t - 1))]\<rparr>)"
  using assms by (simp add: Running_fire tick_nonzero)

lemma fire_Running_zero:
  assumes "Running h (t, d)" "timeRemaining t = 1"
  shows "fire h (t, d) =
    (t\<lparr>timeRemaining := 0\<rparr>,
     d\<lparr>innerText := (innerText d)(element t := ''Time: 0''),
       active := [],
       trace := trace d @ [SetInnerText (element t) ''Time: 0'', ClearInterval (Some h)] @
          (case countdownTimerEndCallback t of
             Function f \<Rightarrow> [Call f] | NotCallable \<Rightarrow> [Uncaught ''TypeError''] | _ \<Rightarrow> [])\<rparr>)"
  using assms by (simp add: Running_fire tick_zero) (simp add: Running_def)


lemma started3_eq:
  "started3 =
    (\<lparr>element = 1, initialTime = 3, timeRemaining = 3, intervalId = Some 1,
      countdownTimerEndCallback = Function 7\<rparr>,
     \<lparr>getElementById = [''scoreboard'' \<mapsto> 0, ''timer'' \<mapsto> 1],
      innerText = (\<lambda>_. [])(1 := ''Time: 3''), nextHandle = 2, active = [1],
      trace = [SetInnerText 1 ''Time: 3'', SetInterval 1]\<rparr>)"
  by (simp add: started3_def timer3_def page3_def page_def startCountdown_eq)

lemma started3_Running: "Running 1 started3"
  by (simp add: started3_eq Running_def)

lemma started3_two_ticks:
  "run [Fire 1, Fire 1] started3 =
    (\<lparr>element = 1, initialTime = 3, timeRemaining = 1, intervalId = Some 1,
      countdownTimerEndCallback = Function 7\<rparr>,
     \<lparr>getElementById = [''scoreboard'' \<mapsto> 0, ''timer'' \<mapsto> 1],
      innerText = (\<lambda>_. [])(1 := ''Time: 1''), nextHandle = 2, active = [1],
      trace = [SetInnerText 1 ''Time: 3'', SetInterval 1, SetInnerText 1 ''Time: 2'',
               SetInnerText 1 ''Time: 1'']\<rparr>)"
  by (simp add: started3_eq run_Cons run_Nil fire_def tick_nonzero Number_toString_small)

lemma page_timer3: "Timer ''timer'' 3 page = (Inr timer3, page3)"
  by (simp add: Timer_def TextComponent_def GameComponent_def Timer_updateDisplay_eq
      page_def timer3_def page3_def Number_toString_small)

lemma Timer_reset_eq:
  assumes "Idle (t, d) \<or> Running h (t, d)"
  shows "Timer_reset (t, d) =
    (t\<lparr>timeRemaining := initialTime t\<rparr>,
     d\<lparr>innerText := (innerText d)(element t := ''Time: '' @ Number_toString (initialTime t)),
       active := [],
       trace := trace d @
         (if truthy (intervalId t) then [ClearInterval (intervalId t)] else []) @
         [SetInnerText (element t) (''Time: '' @ Number_toString (initialTime t))]\<rparr>)"
  using assms
  by (cases d)
     (auto simp add: Timer_reset_def Let_def Timer_updateDisplay_eq clearInterval_def
        Idle_def Running_def truthy_def split: option.splits)

lemma startCountdown_Running:
  assumes "active d = []" "0 < nextHandle d"
  shows "Running (nextHandle d) (startCountdown (t, d))"
  using assms by (simp add: startCountdown_eq Running_def)

lemma ticked3_eq:
  "ticked3 =
    (\<lparr>element = 1, initialTime = 3, timeRemaining = 2, intervalId = Some 1,
      countdownTimerEndCallback = Function 7\<rparr>,
     \<lparr>getElementById = [''scoreboard'' \<mapsto> 0, ''timer'' \<mapsto> 1],
      innerText = (\<lambda>_. [])(1 := ''Time: 2''), nextHandle = 2, active = [1],
      trace = [SetInnerText 1 ''Time: 3'', SetInterval 1, SetInnerText 1 ''Time: 2'']\<rparr>)"
  unfolding ticked3_def started3_eq
  by (simp add: fire_def tick_nonzero Number_toString_small)

lemma Idle_or_Running_step:
  assumes "Idle w \<or> (\<exists>h. Running h w)"
    and "x = StartCountdown \<longrightarrow> active (snd w) = []"
  shows "Idle (step w x) \<or> (\<exists>h. Running h (step w x))"
proof -
  obtain t d where w: "w = (t, d)"
    by (cases w)
  have pos: "0 < nextHandle d"
    using assms(1) by (auto simp add: w Idle_def Running_def)
  show ?thesis
  proof (cases x)
    case StartCountdown
    then have "active d = []"
      using assms(2) by (simp add: w)
    then have "Running (nextHandle d) (step w x)"
      using pos by (simp add: StartCountdown w startCountdown_Running)
    then show ?thesis by blast
  next
    case Reset
    from assms(1) obtain h where "Idle (t, d) \<or> Running h (t, d)"
      unfolding w by blast
    then have "Idle (step w x)"
      using pos by (simp add: Reset w Timer_reset_eq Idle_def)
    then show ?thesis by blast
  next
    case (Fire h')
    show ?thesis
    proof (cases "h' \<in> set (active d)")
      case False
      then show ?thesis
        using assms(1) by (simp add: Fire w fire_def)
    next
      case True
      then have R: "Running h' (t, d)"
        using assms(1) by (auto simp add: w Idle_def Running_def)
      show ?thesis
      proof (cases "timeRemaining t = 1")
        case True
        then have "Idle (step w x)"
          using pos by (simp add: Fire w fire_Running_zero [OF R] Idle_def)
        then show ?thesis by blast
      next
        case False
        then have "Running h' (step w x)"
          using R by (simp add: Fire w fire_Running_nonzero [OF R] Running_def)
        then show ?thesis by blast
      qed
    qed
  next
    case (SetCallback v)
    then show ?thesis
      using assms(1) by (simp add: w Idle_def Running_def)
  qed
qed

lemma disciplined_Idle_or_Running:
  assumes "Idle w \<or> (\<exists>h. Running h w)" and "disciplined xs w"
  shows "Idle (run xs w) \<or> (\<exists>h. Running h (run xs w))"
  using assms
proof (induction xs arbitrary: w)
  case Nil
  then show ?case by (simp add: run_Nil)
next
  case (Cons x xs)
  have "Idle (step w x) \<or> (\<exists>h. Running h (step w x))"
    using Cons.prems by (intro Idle_or_Running_step) simp_all
  then show ?case
    using Cons.prems(2) by (simp add: run_Cons Cons.IH)
qed

lemma disciplined_take: "disciplined xs w \<Longrightarrow> disciplined (take k xs) w"
proof (induction xs arbitrary: w k)
  case Nil
  then show ?case by simp
next
  case (Cons x xs)
  then show ?case by (cases k) simp_all
qed

section \<open>Properties of construction\<close>

text \<open>
  C5. When the identifier resolves to no element of the document, the constructor of each
  of the four components throws the error named \<^verbatim>\<open>HtmlElementNotFound\<close>, whose message
  carries the identifier; it returns no object and leaves the host as it was (no text is
  written). When the identifier is bound to an element, each constructor returns an object
  bound to that element.
\<close>

theorem construction_element_lookup:
  "(getElementById d i = None \<longrightarrow>
      GameComponent i d = Inl (HtmlElementNotFound i) \<and>
      TextComponent i d = Inl (HtmlElementNotFound i) \<and>
      Scoreboard i a d = (Inl (HtmlElementNotFound i), d) \<and>
      Timer i n d = (Inl (HtmlElementNotFound i), d) \<and>
      name (HtmlElementNotFound i) = ''HtmlElementNotFound'' \<and>
      message (HtmlElementNotFound i) =
        ''No element exists with id='' @ [CHR 0x22] @ i @ [CHR 0x22] @ ''.'') \<and>
   (\<forall>e. getElementById d i = Some e \<longrightarrow>
      GameComponent i d = Inr \<lparr>element = e\<rparr> \<and>
      TextComponent i d = Inr \<lparr>element = e\<rparr> \<and>
      (\<exists>this. fst (Scoreboard i a d) = Inr this \<and> getElement this = e) \<and>
      (\<exists>this. fst (Timer i n d) = Inr this \<and> getElement this = e))"
  by (simp add: GameComponent_def TextComponent_def Scoreboard_def Timer_def
      HtmlElementNotFound_def getElement_def Let_def)

theorem construction_element_lookup_witness:
  "getElementById page ''cat'' = None \<and>
   Timer ''cat'' 3 page = (Inl (HtmlElementNotFound ''cat''), page) \<and>
   Scoreboard ''cat'' None page = (Inl (HtmlElementNotFound ''cat''), page) \<and>
   message (HtmlElementNotFound ''cat'') =
     ''No element exists with id='' @ [CHR 0x22] @ ''cat'' @ [CHR 0x22] @ ''.'' \<and>
   getElementById page ''timer'' = Some 1 \<and>
   GameComponent ''timer'' page = Inr \<lparr>element = 1\<rparr>"
  using construction_element_lookup [of page "''cat''" None 3]
    construction_element_lookup [of page "''timer''" None 3]
  by (simp add: page_def)

text \<open>
  C8. When the identifier is bound to an element, construction writes the initial state to
  it at once: a Scoreboard constructed without an initial value has score 0 and shows
  \<^verbatim>\<open>Score: 0\<close> (with an initial value \<open>v\<close>, the text is \<^verbatim>\<open>Score: \<close> and \<open>v\<close>), and a Timer
  constructed with duration \<open>n\<close> shows \<^verbatim>\<open>Time: \<close> and \<open>n\<close>.
\<close>

theorem construction_renders:
  "getElementById d i = Some e \<Longrightarrow>
     Scoreboard i None d =
       (Inr \<lparr>element = e, initialValue = 0, score = 0\<rparr>,
        d\<lparr>innerText := (innerText d)(e := ''Score: 0''),
          trace := trace d @ [SetInnerText e ''Score: 0'']\<rparr>) \<and>
     innerText (snd (Scoreboard i None d)) e = ''Score: 0'' \<and>
     innerText (snd (Scoreboard i (Some v) d)) e = ''Score: '' @ Number_toString v \<and>
     Timer i n d =
       (Inr \<lparr>element = e, initialTime = n, timeRemaining = n, intervalId = None,
             countdownTimerEndCallback = Null\<rparr>,
        d\<lparr>innerText := (innerText d)(e := ''Time: '' @ Number_toString n),
          trace := trace d @ [SetInnerText e (''Time: '' @ Number_toString n)]\<rparr>) \<and>
     innerText (snd (Timer i n d)) e = ''Time: '' @ Number_toString n"
  by (simp add: Scoreboard_Some Timer_Some Number_toString_small)

theorem construction_renders_witness:
  "getElementById page ''scoreboard'' = Some 0 \<and>
   innerText (snd (Scoreboard ''scoreboard'' None page)) 0 = ''Score: 0'' \<and>
   getElementById page ''timer'' = Some 1 \<and>
   innerText (snd (Timer ''timer'' 3 page)) 1 = ''Time: 3''"
proof -
  have s: "getElementById page ''scoreboard'' = Some 0"
    and t: "getElementById page ''timer'' = Some 1"
    by (simp_all add: page_def)
  show ?thesis
    using s t construction_renders [OF s, of 0 3] construction_renders [OF t, of 0 3]
    by (simp add: Number_toString_small)
qed

section \<open>Properties of the Scoreboard\<close>

text \<open>
  C6, as stated, fails: \<^verbatim>\<open>score += value\<close> adds doubles, and a sum beyond \<open>2 ^ 53\<close> is
  rounded. On the Scoreboard with the default initial score 0 of the example page, the
  deltas \<open>2 ^ 53 - 1\<close>, \<open>2\<close> and \<open>- (2 ^ 53 - 1)\<close>, whose sum is 2, applied in this order
  end with the score 1 and the text \<^verbatim>\<open>Score: 1\<close>; applied in the order \<open>2 ^ 53 - 1\<close>,
  \<open>- (2 ^ 53 - 1)\<close>, \<open>2\<close> they end with the score 2.
\<close>

theorem update_order_rounding:
  "Scoreboard ''scoreboard'' None page = (Inr scoreboard0, page_score0) \<and>
   mset [9007199254740991, 2, - 9007199254740991] =
     mset [9007199254740991, - 9007199254740991, 2 :: int] \<and>
   score (fst (updates [9007199254740991, 2, - 9007199254740991]
     (scoreboard0, page_score0))) = 1 \<and>
   innerText (snd (updates [9007199254740991, 2, - 9007199254740991]
     (scoreboard0, page_score0))) 0 = ''Score: 1'' \<and>
   score (fst (updates [9007199254740991, - 9007199254740991, 2]
     (scoreboard0, page_score0))) = 2 \<and>
   \<not> score (fst (updates [9007199254740991, 2, - 9007199254740991]
     (scoreboard0, page_score0))) =
       0 + sum_list [9007199254740991, - 9007199254740991, 2]"
proof -
  have a: "Number_add 0 9007199254740991 = 9007199254740991"
    and b: "Number_add 9007199254740991 2 = 9007199254740992"
    and c: "Number_add 9007199254740992 (- 9007199254740991) = 1"
    and d: "Number_add 9007199254740991 (- 9007199254740991) = 0"
    and e: "Number_add 0 2 = 2"
    by (simp_all add: Number_add_def roundToDouble_def bit_length.simps)
  have m: "mset [9007199254740991, 2, - 9007199254740991] =
      mset [9007199254740991, - 9007199254740991, 2 :: int]"
    by (simp add: add_mset_commute)
  have run: "score (fst (updates [9007199254740991, 2, - 9007199254740991]
        (scoreboard0, page_score0))) = 1 \<and>
      innerText (snd (updates [9007199254740991, 2, - 9007199254740991]
        (scoreboard0, page_score0))) 0 = ''Score: 1'' \<and>
      score (fst (updates [9007199254740991, - 9007199254740991, 2]
        (scoreboard0, page_score0))) = 2"
    by (simp add: updates_def Scoreboard_update_eq scoreboard0_def a b c d e
        Number_toString_small)
  show ?thesis
    using page_scoreboard0 m run by simp
qed

text \<open>
  C6, amended. From a Scoreboard constructed with an initial score, calling \<^verbatim>\<open>update\<close> once
  for each delta of a list \<open>ds\<close>, in any order \<open>ds'\<close> along which the running total (the
  initial score plus the deltas applied so far) stays within \<open>2 ^ 53\<close> in absolute value,
  ends with the score equal to the initial score plus the sum of the deltas, and with
  that score shown. The deltas are integers, positive or negative; \<^verbatim>\<open>update\<close> has no error
  result.
\<close>

theorem update_order_independent:
  assumes "mset ds' = mset ds"
    and "Scoreboard i a d0 = (Inr s, d)"
    and "within_safe (case a of None \<Rightarrow> 0 | Some v \<Rightarrow> v) ds'"
  shows "score (fst (updates ds' (s, d))) = (case a of None \<Rightarrow> 0 | Some v \<Rightarrow> v) + sum_list ds \<and>
         innerText (snd (updates ds' (s, d))) (getElement s) =
           ''Score: '' @ Number_toString ((case a of None \<Rightarrow> 0 | Some v \<Rightarrow> v) + sum_list ds)"
proof -
  obtain e where e: "getElementById d0 i = Some e"
    using assms(2)
    by (cases "getElementById d0 i")
       (simp_all add: Scoreboard_def TextComponent_def GameComponent_def Let_def)
  let ?v = "case a of None \<Rightarrow> 0 | Some v \<Rightarrow> v"
  have s: "s = \<lparr>element = e, initialValue = ?v, score = ?v\<rparr>"
    and shown: "innerText d (element s) = ''Score: '' @ Number_toString (score s)"
    using assms(2) by (auto simp add: Scoreboard_Some [OF e])
  have safe: "within_safe (score s) ds'"
    using assms(3) by (simp add: s)
  have "sum_mset (mset ds') = sum_mset (mset ds)"
    using assms(1) by simp
  then have sum: "sum_list ds' = sum_list ds"
    by (simp add: sum_mset_sum_list)
  have "score (fst (updates ds' (s, d))) = score s + sum_list ds'"
    by (simp add: updates_object [OF safe])
  moreover have "innerText (snd (updates ds' (s, d))) (element s) =
      ''Score: '' @ Number_toString (score s + sum_list ds')"
    by (rule updates_display [OF shown safe])
  ultimately show ?thesis
    by (simp add: sum s getElement_def)
qed

theorem update_order_independent_witness:
  "mset [3, 5, - 2] = mset [5, - 2, 3 :: int] \<and>
   Scoreboard ''scoreboard'' (Some 10) page =
     (Inr \<lparr>element = 0, initialValue = 10, score = 10\<rparr>,
      page\<lparr>innerText := (innerText page)(0 := ''Score: 10''),
           trace := [SetInnerText 0 ''Score: 10'']\<rparr>) \<and>
   within_safe 10 [3, 5, - 2] \<and>
   score (fst (updates [3, 5, - 2]
     (\<lparr>element = 0, initialValue = 10, score = 10\<rparr>,
      page\<lparr>innerText := (innerText page)(0 := ''Score: 10''),
           trace := [SetInnerText 0 ''Score: 10'']\<rparr>))) = 16"
proof -
  have m: "mset [3, 5, - 2] = mset [5, - 2, 3 :: int]"
    by (simp add: add_mset_commute)
  have c: "Scoreboard ''scoreboard'' (Some 10) page =
     (Inr \<lparr>element = 0, initialValue = 10, score = 10\<rparr>,
      page\<lparr>innerText := (innerText page)(0 := ''Score: 10''),
           trace := [SetInnerText 0 ''Score: 10'']\<rparr>)"
    by (simp add: Scoreboard_def TextComponent_def GameComponent_def Let_def
        Scoreboard_updateDisplay_eq page_def Number_toString_def nat_digits.simps)
  have w: "within_safe (case Some 10 of None \<Rightarrow> 0 | Some v \<Rightarrow> v) [3, 5, - 2]"
    by simp
  show ?thesis
    using m c w update_order_independent [OF m c w] by simp
qed

text \<open>
  C7. From a Scoreboard constructed with an initial score, after any list of calls of
  \<^verbatim>\<open>update\<close>, \<^verbatim>\<open>reset\<close> sets the score back to the initial score and shows \<^verbatim>\<open>Score: \<close> with
  it. The text of the element is \<^verbatim>\<open>Score: \<close> with the current score right after each
  mutation: after construction, after every \<^verbatim>\<open>update\<close> and after every \<^verbatim>\<open>reset\<close>, in any state.
\<close>

theorem reset_restores_initial_score:
  assumes "Scoreboard i a d0 = (Inr s, d)"
  shows "score (fst (Scoreboard_reset (updates ds (s, d)))) = (case a of None \<Rightarrow> 0 | Some v \<Rightarrow> v) \<and>
         innerText (snd (Scoreboard_reset (updates ds (s, d)))) (getElement s) =
           ''Score: '' @ Number_toString (case a of None \<Rightarrow> 0 | Some v \<Rightarrow> v) \<and>
         innerText d (getElement s) = ''Score: '' @ Number_toString (score s) \<and>
         (\<forall>s' d' v. innerText (snd (Scoreboard_update v (s', d'))) (getElement s') =
            ''Score: '' @ Number_toString (score (fst (Scoreboard_update v (s', d'))))) \<and>
         (\<forall>s' d'. innerText (snd (Scoreboard_reset (s', d'))) (getElement s') =
            ''Score: '' @ Number_toString (score (fst (Scoreboard_reset (s', d')))))"
proof -
  obtain e where e: "getElementById d0 i = Some e"
    using assms
    by (cases "getElementById d0 i")
       (simp_all add: Scoreboard_def TextComponent_def GameComponent_def Let_def)
  let ?v = "case a of None \<Rightarrow> 0 | Some v \<Rightarrow> v"
  have s: "s = \<lparr>element = e, initialValue = ?v, score = ?v\<rparr>"
    and shown: "innerText d (element s) = ''Score: '' @ Number_toString (score s)"
    using assms by (auto simp add: Scoreboard_Some [OF e])
  obtain s' d' where w: "updates ds (s, d) = (s', d')"
    by (cases "updates ds (s, d)")
  have "initialValue s' = initialValue s" "element s' = element s"
    using updates_fixed [of ds s d] by (simp_all add: w)
  then have s': "initialValue s' = ?v" "element s' = element s"
    by (simp_all add: s)
  have "score (fst (Scoreboard_reset (s', d'))) = ?v"
    and "innerText (snd (Scoreboard_reset (s', d'))) (getElement s) =
           ''Score: '' @ Number_toString ?v"
    by (simp_all add: Scoreboard_reset_eq s' getElement_def)
  then show ?thesis
    using shown by (simp add: w getElement_def Scoreboard_update_eq Scoreboard_reset_eq)
qed

theorem reset_restores_initial_score_witness:
  "Scoreboard ''scoreboard'' (Some 10) page =
     (Inr \<lparr>element = 0, initialValue = 10, score = 10\<rparr>,
      page\<lparr>innerText := (innerText page)(0 := ''Score: 10''),
           trace := [SetInnerText 0 ''Score: 10'']\<rparr>) \<and>
   innerText (snd (Scoreboard_reset (updates [3, 5, - 2]
     (\<lparr>element = 0, initialValue = 10, score = 10\<rparr>,
      page\<lparr>innerText := (innerText page)(0 := ''Score: 10''),
           trace := [SetInnerText 0 ''Score: 10'']\<rparr>)))) 0 = ''Score: 10''"
proof -
  have ten: "Number_toString 10 = ''10''"
    by (simp add: Number_toString_def nat_digits.simps)
  have c: "Scoreboard ''scoreboard'' (Some 10) page =
     (Inr \<lparr>element = 0, initialValue = 10, score = 10\<rparr>,
      page\<lparr>innerText := (innerText page)(0 := ''Score: 10''),
           trace := [SetInnerText 0 ''Score: 10'']\<rparr>)"
    by (simp add: Scoreboard_def TextComponent_def GameComponent_def Let_def
        Scoreboard_updateDisplay_eq page_def ten)
  show ?thesis
    using c reset_restores_initial_score [OF c, of "[3, 5, - 2]"]
    by (simp add: getElement_def ten)
qed

section \<open>Properties of the Timer\<close>





text \<open>
  C4. In either state of the timer, \<open>Idle\<close> or \<open>Running h\<close>, \<^verbatim>\<open>reset\<close> returns normally (it has
  no error result) to the state \<open>w\<close>: the remaining time is the initial duration again and
  nothing else of the object has changed, the callback field included; no interval is
  scheduled (in \<open>Running h\<close> the guard passes and \<open>h\<close> is cancelled); the element shows
  \<^verbatim>\<open>Time: \<close> with the initial duration, written last; and whatever the host fires afterwards
  changes nothing. A following \<^verbatim>\<open>startCountdown\<close> (state \<open>w'\<close>) runs a fresh countdown from
  the initial duration: for a duration \<open>n > 0\<close> the remaining time after \<open>k < n\<close> ticks is
  \<open>n - k\<close> with the interval still scheduled, and after \<open>n\<close> ticks it is 0, \<^verbatim>\<open>Time: 0\<close> is
  shown, the interval is cancelled and the callback, if the field holds a function, has
  been called once.
\<close>

theorem reset_cancels_and_restores:
  assumes "Idle (t, d) \<or> Running h (t, d)"
    and "w = Timer_reset (t, d)" and "w' = startCountdown w" and "h' = nextHandle d"
  shows "fst w = t\<lparr>timeRemaining := initialTime t\<rparr> \<and>
     countdownTimerEndCallback (fst w) = countdownTimerEndCallback t \<and>
     Idle w \<and>
     (Running h (t, d) \<longrightarrow> truthy (intervalId t) \<and> intervalId t = Some h) \<and>
     innerText (snd w) (getElement t) = ''Time: '' @ Number_toString (initialTime t) \<and>
     trace (snd w) =
       trace d @ (if truthy (intervalId t) then [ClearInterval (intervalId t)] else []) @
       [SetInnerText (getElement t) (''Time: '' @ Number_toString (initialTime t))] \<and>
     (\<forall>hs. run (map Fire hs) w = w) \<and>
     Running h' w' \<and> timeRemaining (fst w') = initialTime t \<and>
     (\<forall>n. initialTime t = int n \<and> 0 < n \<longrightarrow>
        (\<forall>k<n. timeRemaining (fst (run (replicate k (Fire h')) w')) = int n - int k \<and>
               Running h' (run (replicate k (Fire h')) w')) \<and>
        timeRemaining (fst (run (replicate n (Fire h')) w')) = 0 \<and>
        innerText (snd (run (replicate n (Fire h')) w')) (getElement t) = ''Time: 0'' \<and>
        active (snd (run (replicate n (Fire h')) w')) = [] \<and>
        calls (trace (snd (run (replicate n (Fire h')) w'))) =
          calls (trace d) @
          (case countdownTimerEndCallback t of Function f \<Rightarrow> [f] | _ \<Rightarrow> []))"
proof -
  let ?text = "''Time: '' @ Number_toString (initialTime t)"
  let ?cancel = "if truthy (intervalId t) then [ClearInterval (intervalId t)] else []"
  define tw where "tw = t\<lparr>timeRemaining := initialTime t\<rparr>"
  define dw where "dw = d\<lparr>innerText := (innerText d)(element t := ?text), active := [],
                          trace := trace d @ ?cancel @ [SetInnerText (element t) ?text]\<rparr>"
  have w: "w = (tw, dw)"
    unfolding assms(2) tw_def dw_def using assms(1) by (rule Timer_reset_eq)
  have pos: "0 < nextHandle d"
    using assms(1) by (auto simp add: Idle_def Running_def)
  define tw' where "tw' = tw\<lparr>intervalId := Some h'\<rparr>"
  define dw' where "dw' = dw\<lparr>nextHandle := Suc h', active := [h'],
                             trace := trace dw @ [SetInterval h']\<rparr>"
  have w': "w' = (tw', dw')"
    unfolding assms(3) w tw'_def dw'_def assms(4)
    by (simp add: startCountdown_eq dw_def)
  have R: "Running h' (tw', dw')"
    using pos by (simp add: Running_def tw'_def dw'_def assms(4))
  have calls_dw': "calls (trace dw') = calls (trace d)"
    by (simp add: dw'_def dw_def calls_append)
  have fields: "timeRemaining tw' = initialTime t" "element tw' = element t"
    "countdownTimerEndCallback tw' = countdownTimerEndCallback t"
    by (simp_all add: tw'_def tw_def)
  have a: "fst w = t\<lparr>timeRemaining := initialTime t\<rparr>"
    and b: "countdownTimerEndCallback (fst w) = countdownTimerEndCallback t"
    and c: "Idle w"
    and e: "innerText (snd w) (getElement t) = ?text"
    and f: "trace (snd w) = trace d @ ?cancel @ [SetInnerText (getElement t) ?text]"
    and g: "\<forall>hs. run (map Fire hs) w = w"
    using pos by (simp_all add: w tw_def dw_def Idle_def getElement_def run_fires_inactive)
  have guard: "Running h (t, d) \<longrightarrow> truthy (intervalId t) \<and> intervalId t = Some h"
    by (simp add: Running_def truthy_def)
  have i: "Running h' w'" and j: "timeRemaining (fst w') = initialTime t"
    using R by (simp_all add: w' fields)
  have k: "(\<forall>k<n. timeRemaining (fst (run (replicate k (Fire h')) w')) = int n - int k \<and>
               Running h' (run (replicate k (Fire h')) w')) \<and>
        timeRemaining (fst (run (replicate n (Fire h')) w')) = 0 \<and>
        innerText (snd (run (replicate n (Fire h')) w')) (getElement t) = ''Time: 0'' \<and>
        active (snd (run (replicate n (Fire h')) w')) = [] \<and>
        calls (trace (snd (run (replicate n (Fire h')) w'))) =
          calls (trace d) @
          (case countdownTimerEndCallback t of Function f \<Rightarrow> [f] | _ \<Rightarrow> [])"
    if n: "initialTime t = int n \<and> 0 < n" for n
  proof -
    have rem: "timeRemaining tw' = int n" and n0: "0 < n"
      using n by (simp_all add: fields)
    have before: "timeRemaining (fst (run (replicate k (Fire h')) w')) = int n - int k \<and>
        Running h' (run (replicate k (Fire h')) w')" if "k < n" for k
    proof -
      have lt: "timeRemaining tw' \<le> 0 \<or> int k < timeRemaining tw'"
        using that by (simp add: rem)
      show ?thesis
        unfolding w'
        using ticks_before_zero [OF R lt] ticks_before_zero_Running [OF R lt]
        by (simp add: rem)
    qed
    note C = countdown_completes [OF R rem n0]
    have "calls (trace (snd (run (replicate n (Fire h')) (tw', dw')))) =
        calls (trace d) @ (case countdownTimerEndCallback t of Function f \<Rightarrow> [f] | _ \<Rightarrow> [])"
      using C
      by (simp add: calls_append calls_renders calls_dw' fields split: jsvalue.splits)
    then show ?thesis
      using before C by (simp add: w' fields getElement_def)
  qed
  show ?thesis
    using a b c guard e f g i j k by blast
qed

theorem reset_cancels_and_restores_witness:
  "Running 1 ticked3 \<and> timeRemaining (fst ticked3) = 2 \<and>
   timeRemaining (fst (Timer_reset ticked3)) = 3 \<and>
   countdownTimerEndCallback (fst (Timer_reset ticked3)) = Function 7 \<and>
   active (snd (Timer_reset ticked3)) = [] \<and>
   innerText (snd (Timer_reset ticked3)) 1 = ''Time: 3'' \<and>
   trace (snd (Timer_reset ticked3)) =
     [SetInnerText 1 ''Time: 3'', SetInterval 1, SetInnerText 1 ''Time: 2'',
      ClearInterval (Some 1), SetInnerText 1 ''Time: 3''] \<and>
   run [Fire 1] (Timer_reset ticked3) = Timer_reset ticked3 \<and>
   Running 2 (startCountdown (Timer_reset ticked3)) \<and>
   (1::nat) < 3 \<and>
   timeRemaining (fst (run (replicate 1 (Fire 2)) (startCountdown (Timer_reset ticked3)))) = 2 \<and>
   timeRemaining (fst (run (replicate 3 (Fire 2)) (startCountdown (Timer_reset ticked3)))) = 0 \<and>
   calls (trace (snd (run (replicate 3 (Fire 2)) (startCountdown (Timer_reset ticked3))))) = [7] \<and>
   Idle (timer3, page3) \<and>
   timeRemaining (fst (Timer_reset (timer3, page3))) = 3 \<and>
   trace (snd (Timer_reset (timer3, page3))) =
     [SetInnerText 1 ''Time: 3'', SetInnerText 1 ''Time: 3'']"
proof -
  have I: "Idle (timer3, page3)"
    by (simp add: Idle_def page3_def page_def)
  then have hypI: "Idle (timer3, page3) \<or> Running 1 (timer3, page3)"
    by simp
  note ri = reset_cancels_and_restores [OF hypI refl refl refl]
  have idle: "timeRemaining (fst (Timer_reset (timer3, page3))) = 3 \<and>
      trace (snd (Timer_reset (timer3, page3))) =
        [SetInnerText 1 ''Time: 3'', SetInnerText 1 ''Time: 3'']"
    using ri
    by (simp add: timer3_def page3_def page_def truthy_def getElement_def
        Number_toString_small)
  have R: "Running 1 ticked3"
    by (simp add: ticked3_eq Running_def)
  then have hyp: "Idle (fst ticked3, snd ticked3) \<or> Running 1 (fst ticked3, snd ticked3)"
    by simp
  have fields: "timeRemaining (fst ticked3) = 2" "initialTime (fst ticked3) = 3"
    "countdownTimerEndCallback (fst ticked3) = Function 7" "intervalId (fst ticked3) = Some 1"
    "getElement (fst ticked3) = 1" "nextHandle (snd ticked3) = 2"
    "trace (snd ticked3) =
       [SetInnerText 1 ''Time: 3'', SetInterval 1, SetInnerText 1 ''Time: 2'']"
    by (simp_all add: ticked3_eq getElement_def)
  note r = reset_cancels_and_restores [OF hyp refl refl refl, unfolded prod.collapse fields]
  have fires: "run (map Fire [1]) (Timer_reset ticked3) = Timer_reset ticked3"
    using r by blast
  have three: "(3::int) = int 3 \<and> 0 < (3::nat)"
    by simp
  have one: "(1::nat) < 3"
    by simp
  have part: "timeRemaining (fst (run (replicate 1 (Fire 2)) (startCountdown (Timer_reset ticked3)))) =
      int 3 - int 1"
    using r three one by blast
  have fresh: "timeRemaining (fst (run (replicate 3 (Fire 2)) (startCountdown (Timer_reset ticked3)))) = 0 \<and>
      calls (trace (snd (run (replicate 3 (Fire 2)) (startCountdown (Timer_reset ticked3))))) =
        calls [SetInnerText 1 ''Time: 3'', SetInterval 1, SetInnerText 1 ''Time: 2''] @
        (case Function 7 of Function f \<Rightarrow> [f] | _ \<Rightarrow> [])"
    using r three by blast
  have state: "fst (Timer_reset ticked3) = fst ticked3\<lparr>timeRemaining := 3\<rparr>"
    "Idle (Timer_reset ticked3)"
    "innerText (snd (Timer_reset ticked3)) 1 = ''Time: '' @ Number_toString 3"
    "trace (snd (Timer_reset ticked3)) =
       [SetInnerText 1 ''Time: 3'', SetInterval 1, SetInnerText 1 ''Time: 2''] @
       (if truthy (Some 1) then [ClearInterval (Some 1)] else []) @
       [SetInnerText 1 (''Time: '' @ Number_toString 3)]"
    "Running 2 (startCountdown (Timer_reset ticked3))"
    using r by blast+
  show ?thesis
    using R fields(1,3) state fires part fresh I idle
    by (simp add: Idle_def truthy_def Number_toString_small)
qed

text \<open>
  C9. The callback that the tick calls at zero is whatever the public field
  \<^verbatim>\<open>countdownTimerEndCallback\<close> holds at that tick. The constructor sets the field to
  \<^verbatim>\<open>null\<close>. If, in a countdown with \<open>n\<close> ticks to go, the field is assigned the value \<open>v\<close>
  after \<open>k < n\<close> of them, whatever it held before, then the calls made by the \<open>n\<close> ticks are:
  the one call of \<open>v\<close> when \<open>v\<close> is a function, and none when \<open>v\<close> is \<^verbatim>\<open>null\<close> or
  \<^verbatim>\<open>undefined\<close>. Without an assignment the field's value at the start decides in the same
  way.
\<close>

theorem callback_read_at_zero:
  "(getElementById d0 i = Some e \<longrightarrow>
      (\<exists>t0 d1. Timer i n0 d0 = (Inr t0, d1) \<and> countdownTimerEndCallback t0 = Null)) \<and>
   (Running h (t, d) \<and> timeRemaining t = int n \<and> k < n \<longrightarrow>
      calls (trace (snd (run (replicate k (Fire h) @ [SetCallback v] @
                              replicate (n - k) (Fire h)) (t, d)))) =
        calls (trace d) @ (case v of Function g \<Rightarrow> [g] | _ \<Rightarrow> [])) \<and>
   (Running h (t, d) \<and> timeRemaining t = int n \<and> 0 < n \<longrightarrow>
      calls (trace (snd (run (replicate n (Fire h)) (t, d)))) =
        calls (trace d) @
        (case countdownTimerEndCallback t of Function g \<Rightarrow> [g] | _ \<Rightarrow> []))"
  (is "?initial \<and> ?assigned \<and> ?unassigned")
proof -
  have initial: ?initial
    by (simp add: Timer_Some)
  have unassigned: "calls (trace (snd (run (replicate m (Fire h)) (t', d')))) =
      calls (trace d') @ (case countdownTimerEndCallback t' of Function g \<Rightarrow> [g] | _ \<Rightarrow> [])"
    if "Running h (t', d')" "timeRemaining t' = int m" "0 < m" for t' d' m
    using countdown_completes [OF that]
    by (simp add: calls_append calls_renders split: jsvalue.splits)
  have assigned: "calls (trace (snd (run (replicate k (Fire h) @ [SetCallback v] @
                              replicate (n - k) (Fire h)) (t, d)))) =
        calls (trace d) @ (case v of Function g \<Rightarrow> [g] | _ \<Rightarrow> [])"
    if R: "Running h (t, d)" and rem: "timeRemaining t = int n" and k: "k < n"
  proof -
    obtain t1 d1 where w1: "run (replicate k (Fire h)) (t, d) = (t1, d1)"
      by (cases "run (replicate k (Fire h)) (t, d)")
    have lt: "timeRemaining t \<le> 0 \<or> int k < timeRemaining t"
      using k by (simp add: rem)
    note B = ticks_before_zero [OF R lt, unfolded w1, simplified]
    have R1: "Running h (t1, d1)"
      using ticks_before_zero_Running [OF R lt] by (simp add: w1)
    have calls1: "calls (trace d1) = calls (trace d)"
      using B by (simp add: calls_append calls_renders)
    let ?t2 = "t1\<lparr>countdownTimerEndCallback := v\<rparr>"
    have R2: "Running h (?t2, d1)"
      using R1 by (simp add: Running_def)
    have rem2: "timeRemaining ?t2 = int (n - k)"
      using B k by (simp add: rem)
    have "run (replicate k (Fire h) @ [SetCallback v] @ replicate (n - k) (Fire h)) (t, d) =
        run (replicate (n - k) (Fire h)) (?t2, d1)"
      by (simp add: run_append w1 run_Cons run_Nil)
    then show ?thesis
      using unassigned [OF R2 rem2] k by (simp add: calls1)
  qed
  show ?thesis
    using initial assigned unassigned by blast
qed

theorem callback_read_at_zero_witness:
  "getElementById page ''timer'' = Some 1 \<and>
   Timer ''timer'' 3 page = (Inr timer3, page3) \<and> countdownTimerEndCallback timer3 = Null \<and>
   Running 1 started3 \<and> timeRemaining (fst started3) = int 3 \<and> (1::nat) < 3 \<and>
   countdownTimerEndCallback (fst started3) = Function 7 \<and>
   calls (trace (snd (run (replicate 1 (Fire 1) @ [SetCallback (Function 9)] @
                           replicate (3 - 1) (Fire 1)) started3))) = [9] \<and>
   calls (trace (snd (run (replicate 1 (Fire 1) @ [SetCallback Null] @
                           replicate (3 - 1) (Fire 1)) started3))) = [] \<and>
   calls (trace (snd (run (replicate 3 (Fire 1)) started3))) = [7]"
proof -
  have pg: "getElementById page ''timer'' = Some 1"
    by (simp add: page_def)
  have hyp: "Running 1 (fst started3, snd started3) \<and> timeRemaining (fst started3) = int 3 \<and>
      (1::nat) < 3"
    using started3_Running by (simp add: started3_eq)
  have hyp': "Running 1 (fst started3, snd started3) \<and> timeRemaining (fst started3) = int 3 \<and>
      (0::nat) < 3"
    using hyp by simp
  have fields: "countdownTimerEndCallback (fst started3) = Function 7"
    "calls (trace (snd started3)) = []"
    by (simp_all add: started3_eq)
  note nine = callback_read_at_zero
    [of page "''timer''" 1 3 1 "fst started3" "snd started3" 3 1 "Function 9",
     unfolded prod.collapse]
  note null = callback_read_at_zero
    [of page "''timer''" 1 3 1 "fst started3" "snd started3" 3 1 Null,
     unfolded prod.collapse]
  have a: "calls (trace (snd (run (replicate 1 (Fire 1) @ [SetCallback (Function 9)] @
                           replicate (3 - 1) (Fire 1)) started3))) =
        calls (trace (snd started3)) @ (case Function 9 of Function g \<Rightarrow> [g] | _ \<Rightarrow> [])"
    using nine hyp [unfolded prod.collapse] by blast
  have b: "calls (trace (snd (run (replicate 1 (Fire 1) @ [SetCallback Null] @
                           replicate (3 - 1) (Fire 1)) started3))) =
        calls (trace (snd started3)) @ (case Null of Function g \<Rightarrow> [g] | _ \<Rightarrow> [])"
    using null hyp [unfolded prod.collapse] by blast
  have c: "calls (trace (snd (run (replicate 3 (Fire 1)) started3))) =
        calls (trace (snd started3)) @
        (case countdownTimerEndCallback (fst started3) of Function g \<Rightarrow> [g] | _ \<Rightarrow> [])"
    using nine hyp' [unfolded prod.collapse] by blast
  have d: "countdownTimerEndCallback timer3 = Null"
    by (simp add: timer3_def)
  show ?thesis
    using pg page_timer3 d started3_Running hyp fields(1) a b c
    by (simp add: fields)
qed

text \<open>
  C10. When the tick that reaches zero has run (\<open>w\<close> is the state it leaves), no interval is
  scheduled but \<^verbatim>\<open>intervalId\<close> still holds the handle \<open>h\<close> of the cancelled interval, and it
  is truthy. A \<^verbatim>\<open>reset\<close> then returns normally: its guard passes, it calls \<^verbatim>\<open>clearInterval\<close>
  with \<open>h\<close> once more, which cancels nothing, sets the remaining time to the initial
  duration and writes \<^verbatim>\<open>Time: \<close> with the initial duration to the element.
\<close>

theorem reset_after_completion:
  assumes "Running h (t, d)" and "timeRemaining t = 1" and "w = fire h (t, d)"
  shows "active (snd w) = [] \<and> intervalId (fst w) = Some h \<and> truthy (intervalId (fst w)) \<and>
     Timer_reset w =
       (fst w\<lparr>timeRemaining := initialTime t\<rparr>,
        (snd w)\<lparr>innerText := (innerText (snd w))
                   (getElement t := ''Time: '' @ Number_toString (initialTime t)),
                 trace := trace (snd w) @
                   [ClearInterval (Some h),
                    SetInnerText (getElement t) (''Time: '' @ Number_toString (initialTime t))]\<rparr>) \<and>
     active (snd (Timer_reset w)) = [] \<and>
     timeRemaining (fst (Timer_reset w)) = initialTime t \<and>
     innerText (snd (Timer_reset w)) (getElement t) =
       ''Time: '' @ Number_toString (initialTime t)"
proof -
  have h: "intervalId t = Some h" "0 < h"
    using assms(1) by (simp_all add: Running_def)
  have w: "w =
    (t\<lparr>timeRemaining := 0\<rparr>,
     d\<lparr>innerText := (innerText d)(element t := ''Time: 0''),
       active := [],
       trace := trace d @ [SetInnerText (element t) ''Time: 0'', ClearInterval (Some h)] @
          (case countdownTimerEndCallback t of
             Function f \<Rightarrow> [Call f] | NotCallable \<Rightarrow> [Uncaught ''TypeError''] | _ \<Rightarrow> [])\<rparr>)"
    unfolding assms(3) using assms(1,2) by (rule fire_Running_zero)
  show ?thesis
    unfolding w
    using h
    by (simp add: Timer_reset_def Let_def truthy_def clearInterval_def Timer_updateDisplay_eq
        getElement_def)
qed

theorem reset_after_completion_witness:
  "Running 1 (run [Fire 1, Fire 1] started3) \<and>
   timeRemaining (fst (run [Fire 1, Fire 1] started3)) = 1 \<and>
   intervalId (fst (fire 1 (run [Fire 1, Fire 1] started3))) = Some 1 \<and>
   active (snd (fire 1 (run [Fire 1, Fire 1] started3))) = [] \<and>
   timeRemaining (fst (Timer_reset (fire 1 (run [Fire 1, Fire 1] started3)))) = 3 \<and>
   innerText (snd (Timer_reset (fire 1 (run [Fire 1, Fire 1] started3)))) 1 = ''Time: 3''"
proof -
  have R: "Running 1 (fst (run [Fire 1, Fire 1] started3), snd (run [Fire 1, Fire 1] started3))"
    and rem: "timeRemaining (fst (run [Fire 1, Fire 1] started3)) = 1"
    unfolding started3_two_ticks by (simp_all add: Running_def)
  have fields: "initialTime (fst (run [Fire 1, Fire 1] started3)) = 3"
    "getElement (fst (run [Fire 1, Fire 1] started3)) = 1"
    unfolding started3_two_ticks by (simp_all add: getElement_def)
  note r = reset_after_completion [OF R rem refl, unfolded prod.collapse fields]
  show ?thesis
    using R [unfolded prod.collapse] rem r
    by (simp add: Number_toString_small del: One_nat_def)
qed

text \<open>
  C2, as stated, fails: nothing in \<^verbatim>\<open>startCountdown\<close> looks at the interval already
  scheduled. On the timer of duration 3 of the example page, two calls of
  \<^verbatim>\<open>startCountdown\<close> in a row leave two intervals scheduled.
\<close>

theorem double_start_two_intervals:
  "Timer ''timer'' 3 page = (Inr timer3, page3) \<and>
   active (snd (run [StartCountdown, StartCountdown] (timer3, page3))) = [1, 2] \<and>
   \<not> length (active (snd (run [StartCountdown, StartCountdown] (timer3, page3)))) \<le> 1"
  by (simp add: page_timer3 run_Cons run_Nil startCountdown_eq)
     (simp add: page3_def page_def)

text \<open>
  C2, amended. From a state in which no interval is scheduled (as after construction),
  along every run of calls of \<^verbatim>\<open>startCountdown\<close> and \<^verbatim>\<open>reset\<close>, ticks and assignments of the
  callback field in which \<^verbatim>\<open>startCountdown\<close> is only called while no interval is scheduled,
  at most one interval is scheduled at any time, that is, after every initial part of
  the run.
\<close>

theorem at_most_one_interval:
  assumes "Idle w" and "disciplined xs w"
  shows "length (active (snd (run (take k xs) w))) \<le> 1"
proof -
  have "Idle (run (take k xs) w) \<or> (\<exists>h. Running h (run (take k xs) w))"
    using assms by (intro disciplined_Idle_or_Running disciplined_take) simp_all
  then show ?thesis
    by (auto simp add: Idle_def Running_def)
qed

theorem at_most_one_interval_witness:
  "Idle (timer3, page3) \<and>
   disciplined [StartCountdown, Fire 1, Reset, StartCountdown, Fire 2, Fire 2, Fire 2,
                StartCountdown] (timer3, page3) \<and>
   length (active (snd (run (take 5 [StartCountdown, Fire 1, Reset, StartCountdown, Fire 2,
                Fire 2, Fire 2, StartCountdown]) (timer3, page3)))) \<le> 1"
proof -
  have i: "Idle (timer3, page3)"
    by (simp add: Idle_def page3_def page_def)
  have d: "disciplined [StartCountdown, Fire 1, Reset, StartCountdown, Fire 2, Fire 2, Fire 2,
                StartCountdown] (timer3, page3)"
    by (simp add: timer3_def page3_def page_def startCountdown_eq fire_def tick_nonzero
        tick_zero Timer_reset_def clearInterval_def truthy_def Timer_updateDisplay_eq Let_def)
  show ?thesis
    using i d at_most_one_interval [OF i d, of 5] by simp
qed

end
